theory Spec2Isabelle
  imports Complex_Main
begin

section \<open>Calendar arithmetic of the platform's Date object\<close>

text \<open>
  The salary reminder of the frontend (\<^verbatim>\<open>SalaryReminder.tsx\<close>) reads the clock with
  \<^verbatim>\<open>new Date()\<close>, builds candidate dates with \<^verbatim>\<open>new Date(year, monthIndex, day)\<close> and
  subtracts time values. A Date is modelled by its time value: an integer number of
  milliseconds since the epoch, in UTC. The calendar functions below follow the definitions
  of ECMA-262 (Day, DayFromYear, YearFromTime, MonthFromTime, DateFromTime, MakeDay,
  LocalTime, UTC); the time zone of the machine is an argument of everything that reads or
  builds a Date in local time.

  Modelling assumptions: time values are mathematical integers (the clipping of time values
  beyond about year 275760 is left out), and the quotient of two time values is exact.
\<close>

definition msPerDay :: int where
  "msPerDay = 86400000"

definition Day :: "int \<Rightarrow> int" where
  "Day t = t div msPerDay"

definition leapYear :: "int \<Rightarrow> bool" where
  "leapYear y = ((y mod 4 = 0 \<and> y mod 100 \<noteq> 0) \<or> y mod 400 = 0)"

definition DaysInYear :: "int \<Rightarrow> int" where
  "DaysInYear y = (if leapYear y then 366 else 365)"

definition DayFromYear :: "int \<Rightarrow> int" where
  "DayFromYear y = 365 * (y - 1970) + (y - 1969) div 4 - (y - 1901) div 100 + (y - 1601) div 400"

text \<open>
  Day numbers of consecutive years differ by the length of the year; the search for the year
  of a day terminates by this.
\<close>

lemma div_succ:
  fixes a k :: int
  assumes k: "0 < k"
  shows "(a + 1) div k = a div k + (if (a + 1) mod k = 0 then 1 else 0)"
proof -
  define q where "q = a div k"
  define r where "r = a mod k"
  have a: "a = k * q + r" by (simp add: q_def r_def)
  have r: "0 \<le> r" "r < k" using k by (simp_all add: r_def)
  show ?thesis
  proof (cases "r + 1 = k")
    case True
    then have e: "a + 1 = k * (q + 1) + 0" using a by (simp add: algebra_simps)
    have "(a + 1) div k = q + 1"
      by (rule int_div_pos_eq [OF e]) (use k in simp_all)
    moreover have "(a + 1) mod k = 0"
      by (rule int_mod_pos_eq [OF e]) (use k in simp_all)
    ultimately show ?thesis by (simp add: q_def)
  next
    case False
    then have lt: "r + 1 < k" using r by simp
    have e: "a + 1 = k * q + (r + 1)" using a by simp
    have "(a + 1) div k = q"
      by (rule int_div_pos_eq [OF e]) (use r lt in simp_all)
    moreover have "(a + 1) mod k = r + 1"
      by (rule int_mod_pos_eq [OF e]) (use r lt in simp_all)
    ultimately show ?thesis using r by (simp add: q_def)
  qed
qed

lemma mod_shift: "((y::int) + c * k) mod k = y mod k"
  by simp

lemma mod_400_100: "(y::int) mod 400 = 0 \<Longrightarrow> y mod 100 = 0"
proof -
  assume a: "y mod 400 = 0"
  have "y mod 400 mod 100 = y mod 100" by (rule mod_mod_cancel) simp
  with a show ?thesis by simp
qed

lemma mod_100_4: "(y::int) mod 100 = 0 \<Longrightarrow> y mod 4 = 0"
proof -
  assume a: "y mod 100 = 0"
  have "y mod 100 mod 4 = y mod 4" by (rule mod_mod_cancel) simp
  with a show ?thesis by simp
qed

lemma DayFromYear_step: "DayFromYear (y + 1) = DayFromYear y + DaysInYear y"
proof -
  have m4: "(y - 1969 + 1) mod 4 = y mod 4"
    using mod_shift [of y "-492" 4] by simp
  have m100: "(y - 1901 + 1) mod 100 = y mod 100"
    using mod_shift [of y "-19" 100] by simp
  have m400: "(y - 1601 + 1) mod 400 = y mod 400"
    using mod_shift [of y "-4" 400] by simp
  have d4: "(y + 1 - 1969) div 4 = (y - 1969) div 4 + (if y mod 4 = 0 then 1 else 0)"
    using div_succ [of 4 "y - 1969"] m4 by (simp add: algebra_simps)
  have d100: "(y + 1 - 1901) div 100 = (y - 1901) div 100 + (if y mod 100 = 0 then 1 else 0)"
    using div_succ [of 100 "y - 1901"] m100 by (simp add: algebra_simps)
  have d400: "(y + 1 - 1601) div 400 = (y - 1601) div 400 + (if y mod 400 = 0 then 1 else 0)"
    using div_succ [of 400 "y - 1601"] m400 by (simp add: algebra_simps)
  show ?thesis
    unfolding DayFromYear_def DaysInYear_def leapYear_def d4 d100 d400
    using mod_400_100 [of y] mod_100_4 [of y] by auto
qed

lemma DayFromYear_less: "DayFromYear y < DayFromYear (y + 1)"
  by (simp add: DayFromYear_step DaysInYear_def)

lemma DayFromYear_pred: "DayFromYear (y - 1) < DayFromYear y"
  using DayFromYear_less [of "y - 1"] by simp

text \<open>
  The year of a day number: the year \<open>y\<close> with \<open>DayFromYear y \<le> n < DayFromYear (y + 1)\<close>,
  found by stepping from an estimate.
\<close>

function yearFind :: "int \<Rightarrow> int \<Rightarrow> int" where
  "yearFind n y =
     (if n < DayFromYear y then yearFind n (y - 1)
      else if DayFromYear (y + 1) \<le> n then yearFind n (y + 1)
      else y)"
  by pat_completeness auto
termination
proof (relation "measure (\<lambda>(n, y). nat (DayFromYear y - n) + nat (n - DayFromYear (y + 1) + 1))",
    goal_cases)
  case 1
  show ?case by (rule wf_measure)
next
  case (2 n y)
  have "DayFromYear (y - 1) < DayFromYear y" by (rule DayFromYear_pred)
  moreover have "DayFromYear y < DayFromYear (y + 1)" by (rule DayFromYear_less)
  ultimately have "nat (DayFromYear (y - 1) - n) + nat (n - DayFromYear (y - 1 + 1) + 1)
      < nat (DayFromYear y - n) + nat (n - DayFromYear (y + 1) + 1)"
    using 2 by simp
  then show ?case by (simp only: in_measure prod.case)
next
  case (3 n y)
  have "DayFromYear (y + 1) < DayFromYear (y + 1 + 1)" by (rule DayFromYear_less)
  moreover have "DayFromYear y < DayFromYear (y + 1)" by (rule DayFromYear_less)
  ultimately have "nat (DayFromYear (y + 1) - n) + nat (n - DayFromYear (y + 1 + 1) + 1)
      < nat (DayFromYear y - n) + nat (n - DayFromYear (y + 1) + 1)"
    using 3 by linarith
  then show ?case by (simp only: in_measure prod.case)
qed
declare yearFind.simps [simp del]

definition YearFromTime :: "int \<Rightarrow> int" where
  "YearFromTime t = yearFind (Day t) (1970 + Day t div 365)"

definition InLeapYear :: "int \<Rightarrow> int" where
  "InLeapYear t = (if DaysInYear (YearFromTime t) = 366 then 1 else 0)"

definition DayWithinYear :: "int \<Rightarrow> int" where
  "DayWithinYear t = Day t - DayFromYear (YearFromTime t)"

definition MonthFromTime :: "int \<Rightarrow> int" where
  "MonthFromTime t =
     (let d = DayWithinYear t; L = InLeapYear t in
      if d < 31 then 0
      else if d < 59 + L then 1
      else if d < 90 + L then 2
      else if d < 120 + L then 3
      else if d < 151 + L then 4
      else if d < 181 + L then 5
      else if d < 212 + L then 6
      else if d < 243 + L then 7
      else if d < 273 + L then 8
      else if d < 304 + L then 9
      else if d < 334 + L then 10
      else 11)"

definition DateFromTime :: "int \<Rightarrow> int" where
  "DateFromTime t =
     (let d = DayWithinYear t; L = InLeapYear t; m = MonthFromTime t in
      if m = 0 then d + 1
      else if m = 1 then d - 30
      else if m = 2 then d - 58 - L
      else if m = 3 then d - 89 - L
      else if m = 4 then d - 119 - L
      else if m = 5 then d - 150 - L
      else if m = 6 then d - 180 - L
      else if m = 7 then d - 211 - L
      else if m = 8 then d - 242 - L
      else if m = 9 then d - 272 - L
      else if m = 10 then d - 303 - L
      else d - 333 - L)"

definition monthStart :: "int \<Rightarrow> int \<Rightarrow> int" where
  "monthStart y m =
     (let L = (if leapYear y then 1 else 0) in
      if m = 0 then 0
      else if m = 1 then 31
      else if m = 2 then 59 + L
      else if m = 3 then 90 + L
      else if m = 4 then 120 + L
      else if m = 5 then 151 + L
      else if m = 6 then 181 + L
      else if m = 7 then 212 + L
      else if m = 8 then 243 + L
      else if m = 9 then 273 + L
      else if m = 10 then 304 + L
      else 334 + L)"

definition MakeDay :: "int \<Rightarrow> int \<Rightarrow> int \<Rightarrow> int" where
  "MakeDay year month date =
     (let ym = year + month div 12; mn = month mod 12 in
      DayFromYear ym + monthStart ym mn + date - 1)"

definition daysInMonth :: "int \<Rightarrow> int \<Rightarrow> int" where
  "daysInMonth y m =
     (if m = 1 then (if leapYear y then 29 else 28)
      else if m = 3 \<or> m = 5 \<or> m = 8 \<or> m = 10 then 30
      else 31)"

section \<open>The salary reminder calculator (components/SalaryReminder)\<close>

text \<open>
  A time zone is the function \<^verbatim>\<open>LocalTZA(t, isUTC)\<close> of ECMA-262, in milliseconds: \<open>tz t True\<close>
  is the offset of local time from UTC in force at the UTC time value \<open>t\<close>, and
  \<open>tz t False\<close> is the offset by which the local time value \<open>t\<close> is read.
\<close>

type_synonym zone = "int \<Rightarrow> bool \<Rightarrow> int"

definition LocalTime :: "zone \<Rightarrow> int \<Rightarrow> int" where
  "LocalTime tz t = t + tz t True"

definition UTC :: "zone \<Rightarrow> int \<Rightarrow> int" where
  "UTC tz t = t - tz t False"

text \<open>
  The Date operations the component uses. \<open>Date_ymd\<close> is \<^verbatim>\<open>new Date(year, monthIndex, day)\<close>:
  the time value of local midnight of the day, with a month index or day outside its range
  carried over, and a year from 0 to 99 read as 1900 to 1999. The getters read the local
  time of a time value; \<open>getTime\<close> is the time value itself.
\<close>

definition MakeFullYear :: "int \<Rightarrow> int" where
  "MakeFullYear year = (if 0 \<le> year \<and> year \<le> 99 then 1900 + year else year)"

definition Date_ymd :: "zone \<Rightarrow> int \<Rightarrow> int \<Rightarrow> int \<Rightarrow> int" where
  "Date_ymd tz year monthIndex day =
     UTC tz (MakeDay (MakeFullYear year) monthIndex day * msPerDay)"

definition getFullYear :: "zone \<Rightarrow> int \<Rightarrow> int" where
  "getFullYear tz t = YearFromTime (LocalTime tz t)"

definition getMonth :: "zone \<Rightarrow> int \<Rightarrow> int" where
  "getMonth tz t = MonthFromTime (LocalTime tz t)"

definition getDate :: "zone \<Rightarrow> int \<Rightarrow> int" where
  "getDate tz t = DateFromTime (LocalTime tz t)"

definition getTime :: "int \<Rightarrow> int" where
  "getTime t = t"

definition Math_ceil_div :: "int \<Rightarrow> int \<Rightarrow> int" where
  "Math_ceil_div a b = - ((- a) div b)"

text \<open>
  The value of the variable \<^verbatim>\<open>nextSalaryDate\<close> of \<^verbatim>\<open>calculateDaysRemaining\<close> after its
  three assignments (lines 33 to 44), for a salary day within 1..31.
\<close>

definition nextSalaryDate :: "zone \<Rightarrow> int \<Rightarrow> int \<Rightarrow> int" where
  "nextSalaryDate tz salaryDay today =
     (let currentYear = getFullYear tz today;
          currentMonth = getMonth tz today;
          currentDay = getDate tz today;
          d0 = Date_ymd tz currentYear currentMonth salaryDay;
          d1 = (if salaryDay < currentDay
                then Date_ymd tz currentYear (currentMonth + 1) salaryDay else d0);
          d2 = (if salaryDay = 31 \<and> getDate tz d1 \<noteq> 31
                then Date_ymd tz currentYear (currentMonth + 1) 0 else d1)
      in d2)"

text \<open>
  The last line of the function, \<^verbatim>\<open>return diffDays >= 0 ? diffDays : null\<close>. The function
  has no other output: it neither logs nor throws.
\<close>

definition daysResult :: "int \<Rightarrow> int option" where
  "daysResult diffDays = (if diffDays \<ge> 0 then Some diffDays else None)"

text \<open>
  \<^verbatim>\<open>calculateDaysRemaining(salaryDay)\<close>, with the time zone of the machine and the clock
  reading \<^verbatim>\<open>today = new Date()\<close> as explicit arguments; \<open>None\<close> is the source's \<^verbatim>\<open>null\<close>.
\<close>

definition calculateDaysRemaining :: "zone \<Rightarrow> int \<Rightarrow> int \<Rightarrow> int option" where
  "calculateDaysRemaining tz salaryDay today =
     (if salaryDay < 1 \<or> salaryDay > 31 then None
      else
        let diffTime = getTime (nextSalaryDate tz salaryDay today) - getTime today;
            diffDays = Math_ceil_div diffTime (1000 * 60 * 60 * 24)
        in daysResult diffDays)"

text \<open>
  A time zone that skips no local midnight: a Date built at a local midnight reads back as
  that midnight. (An offset change that begins at midnight, or that skips a whole day,
  breaks this; the changes of most zones, at one to three in the morning, do not.)
\<close>

definition midnight_kept :: "zone \<Rightarrow> bool" where
  "midnight_kept tz = (\<forall>l. l mod msPerDay = 0 \<longrightarrow> LocalTime tz (UTC tz l) = l)"

section \<open>Values, errors and responses of the backend\<close>

text \<open>
  The values a JSON request body and a decoded token payload are made of. A number is a
  rational: every finite double is one. The infinities and NaN are left out; the handlers
  below reject them by the same tests that reject a number out of range. Arrays are left
  out.
\<close>

datatype js_value =
  Undefined | Null | Bool bool | Number rat | Str string | Object "(string \<times> js_value) list"


fun typeof :: "js_value \<Rightarrow> string" where
  "typeof Undefined = ''undefined''"
| "typeof Null = ''object''"
| "typeof (Bool b) = ''boolean''"
| "typeof (Number x) = ''number''"
| "typeof (Str s) = ''string''"
| "typeof (Object fs) = ''object''"

text \<open>Property read \<^verbatim>\<open>obj.key\<close> and the test \<^verbatim>\<open>'key' in obj\<close> on an object value.\<close>

fun get_field :: "js_value \<Rightarrow> string \<Rightarrow> js_value" where
  "get_field (Object fs) k = (case map_of fs k of Some v \<Rightarrow> v | None \<Rightarrow> Undefined)"
| "get_field v k = Undefined"

fun has_key :: "string \<Rightarrow> js_value \<Rightarrow> bool" where
  "has_key k (Object fs) = (map_of fs k \<noteq> None)"
| "has_key k v = False"

text \<open>The falsy test \<^verbatim>\<open>!x\<close> on a value of type \<^verbatim>\<open>string | undefined\<close>.\<close>

definition absent :: "string option \<Rightarrow> bool" where
  "absent x = (case x of None \<Rightarrow> True | Some s \<Rightarrow> s = [])"

datatype exn =
  Error string
| TypeError string
| JsonWebTokenError string
| TokenExpiredError string
| BadRequestError string
| ConflictError string
| DuplicateEntry string

fun exn_message :: "exn \<Rightarrow> string" where
  "exn_message (Error m) = m"
| "exn_message (TypeError m) = m"
| "exn_message (JsonWebTokenError m) = m"
| "exn_message (TokenExpiredError m) = m"
| "exn_message (BadRequestError m) = m"
| "exn_message (ConflictError m) = m"
| "exn_message (DuplicateEntry m) = m"

record api_response =
  success :: bool
  data :: "js_value option"
  error :: "string option"
  message :: "string option"

record response =
  status :: nat
  json :: api_response

definition failure :: "nat \<Rightarrow> string \<Rightarrow> response" where
  "failure code msg =
     \<lparr>status = code, json = \<lparr>success = False, data = None, error = Some msg, message = None\<rparr>\<rparr>"

datatype log_level = Info | Warn | Err

type_synonym log_entry = "log_level \<times> string \<times> (string \<times> string) list"

record env =
  JWT_SECRET :: "string option"
  JWT_EXPIRES_IN :: "string option"

text \<open>
  A request: the Authorization header, the parsed cookies, the caller's address and path,
  the parsed body, and the two properties a handler reads after the middleware, at the type
  the handlers declare for them (\<^verbatim>\<open>string | undefined\<close>).
\<close>

record request =
  authorization :: "string option"
  cookies :: "(string \<rightharpoonup> string) option"
  ip :: string
  path :: string
  body :: js_value
  userId :: "string option"
  userEmail :: "string option"

section \<open>Token issuing and verification (utils/auth)\<close>

text \<open>
  \<^verbatim>\<open>getJWTSecret\<close> throws when the variable is unset or empty. \<open>expiresIn\<close> is the
  module's constant \<^verbatim>\<open>JWT_EXPIRES_IN\<close>, \<^verbatim>\<open>process.env.JWT_EXPIRES_IN || '7d'\<close>.
\<close>

definition getJWTSecret :: "env \<Rightarrow> exn + string" where
  "getJWTSecret e =
     (case JWT_SECRET e of
        None \<Rightarrow> Inl (Error ''JWT_SECRET environment variable is required. Please set it in your .env file.'')
      | Some secret \<Rightarrow>
          if secret = []
          then Inl (Error ''JWT_SECRET environment variable is required. Please set it in your .env file.'')
          else Inr secret)"

definition expiresIn :: "env \<Rightarrow> string" where
  "expiresIn e = (case JWT_EXPIRES_IN e of None \<Rightarrow> ''7d'' | Some s \<Rightarrow> if s = [] then ''7d'' else s)"

text \<open>
  \<^verbatim>\<open>generateToken\<close> and \<^verbatim>\<open>verifyToken\<close> hand the work to the two functions of the
  jsonwebtoken package, which are arguments here: \<open>sign payload secret expiresIn\<close> and
  \<open>verify token secret\<close>, each returning a value or throwing. Neither function looks into
  the token, so its type is left open.
\<close>

definition generateToken ::
  "((string \<times> js_value) list \<Rightarrow> string \<Rightarrow> string \<Rightarrow> exn + 'tok) \<Rightarrow> env \<Rightarrow> string \<Rightarrow> string
    \<Rightarrow> exn + 'tok" where
  "generateToken sign e uid email =
     (case getJWTSecret e of
        Inl err \<Rightarrow> Inl err
      | Inr secret \<Rightarrow> sign [(''userId'', Str uid), (''email'', Str email)] secret (expiresIn e))"

definition verifyToken ::
  "('tok \<Rightarrow> string \<Rightarrow> exn + js_value) \<Rightarrow> env \<Rightarrow> 'tok \<Rightarrow> exn + js_value option" where
  "verifyToken verify e token =
     (case (case getJWTSecret e of
              Inl err \<Rightarrow> Inl err
            | Inr secret \<Rightarrow>
                (case verify token secret of
                   Inl err \<Rightarrow> Inl err
                 | Inr decoded \<Rightarrow>
                     if typeof decoded = ''object'' \<and> decoded \<noteq> Null
                        \<and> has_key ''userId'' decoded \<and> has_key ''email'' decoded
                     then Inr (Some decoded)
                     else Inr None)) of
        Inl err \<Rightarrow> Inr None
      | Inr r \<Rightarrow> Inr r)"

subsection \<open>The jsonwebtoken package\<close>

text \<open>
  Modelled from the spec: the signing and verification primitives, which the repository
  imports from the jsonwebtoken package and does not contain. A token is read as the
  package's decoder reads it: either not a JSON Web Token at all, or a set of claims with a
  signature. \<open>mac\<close> is the keyed hash over the claims, \<open>timespan\<close> reads a time span such as
  \<^verbatim>\<open>7d\<close> in seconds, and \<open>now\<close> is the clock in seconds. Signing adds the claims
  \<^verbatim>\<open>iat\<close> and \<^verbatim>\<open>exp\<close>; verification returns the claims if and only if the signature is
  the keyed hash of the claims under the secret and the clock is before \<^verbatim>\<open>exp\<close>, and throws
  otherwise.
\<close>

datatype jws = Malformed | Jws "(string \<times> js_value) list" string

text \<open>
  Modelled from the spec: \<^verbatim>\<open>jwt.sign(payload, secret, {expiresIn})\<close> of the jsonwebtoken
  package, issuing a signed token that embeds the payload with a fixed expiry.
\<close>

definition jwt_sign ::
  "(string \<Rightarrow> (string \<times> js_value) list \<Rightarrow> string) \<Rightarrow> (string \<Rightarrow> int option) \<Rightarrow> int
    \<Rightarrow> (string \<times> js_value) list \<Rightarrow> string \<Rightarrow> string \<Rightarrow> exn + jws" where
  "jwt_sign mac timespan now payload secret expires =
     (case timespan expires of
        None \<Rightarrow> Inl (Error ''expiresIn should be a number of seconds or string representing a timespan'')
      | Some d \<Rightarrow>
          let claims = payload @ [(''iat'', Number (of_int now)), (''exp'', Number (of_int (now + d)))]
          in Inr (Jws claims (mac secret claims)))"

text \<open>
  Modelled from the spec: \<^verbatim>\<open>jwt.verify(token, secret)\<close> of the jsonwebtoken package, which
  returns the decoded claims if and only if the signature is valid and the token has not
  expired, and throws for a malformed, mis-signed or expired token.
\<close>

definition jwt_verify ::
  "(string \<Rightarrow> (string \<times> js_value) list \<Rightarrow> string) \<Rightarrow> int \<Rightarrow> jws \<Rightarrow> string \<Rightarrow> exn + js_value" where
  "jwt_verify mac now token secret =
     (case token of
        Malformed \<Rightarrow> Inl (JsonWebTokenError ''jwt malformed'')
      | Jws claims sg \<Rightarrow>
          if sg \<noteq> mac secret claims then Inl (JsonWebTokenError ''invalid signature'')
          else (case map_of claims ''exp'' of
                  None \<Rightarrow> Inr (Object claims)
                | Some (Number x) \<Rightarrow>
                    if of_int now \<ge> x then Inl (TokenExpiredError ''jwt expired'')
                    else Inr (Object claims)
                | Some v \<Rightarrow> Inl (JsonWebTokenError ''invalid exp value'')))"

section \<open>The authentication middleware (middleware/auth)\<close>

text \<open>The token chosen by lines 30 to 39 of \<^verbatim>\<open>authenticate\<close>.\<close>

definition cookie_authToken :: "request \<Rightarrow> string option" where
  "cookie_authToken req = (case cookies req of None \<Rightarrow> None | Some c \<Rightarrow> c ''authToken'')"

definition authenticate_token :: "request \<Rightarrow> string option" where
  "authenticate_token req =
     (case authorization req of
        Some authHeader \<Rightarrow>
          if authHeader \<noteq> [] \<and> take 7 authHeader = ''Bearer ''
          then Some (drop 7 authHeader)
          else cookie_authToken req
      | None \<Rightarrow> cookie_authToken req)"

text \<open>
  The middleware either answers itself or calls \<^verbatim>\<open>next()\<close>. \<open>Next req userId userEmail\<close> is
  the call of \<^verbatim>\<open>next()\<close> after \<^verbatim>\<open>req.userId\<close> and \<^verbatim>\<open>req.userEmail\<close> were assigned the two
  values, which are copied from the decoded token whatever their type.
\<close>

datatype outcome = Responded response | Next request js_value js_value

definition authenticate ::
  "(string \<Rightarrow> string \<Rightarrow> exn + js_value) \<Rightarrow> env \<Rightarrow> request \<Rightarrow> outcome \<times> log_entry list" where
  "authenticate verify e req =
     (case authenticate_token req of
        None \<Rightarrow> (Responded (failure 401 ''No token provided. Please login first.''), [])
      | Some token \<Rightarrow>
          if token = [] then (Responded (failure 401 ''No token provided. Please login first.''), [])
          else
            (case verifyToken verify e token of
               Inl err \<Rightarrow>
                 (Responded (failure 401 ''Authentication failed''),
                  [(Err, ''Authentication error'',
                    [(''error'', exn_message err), (''ip'', ip req), (''path'', path req)])])
             | Inr None \<Rightarrow>
                 (Responded (failure 401 ''Invalid or expired token. Please login again.''),
                  [(Warn, ''Invalid token attempt'', [(''ip'', ip req), (''path'', path req)])])
             | Inr (Some decoded) \<Rightarrow>
                 (Next req (get_field decoded ''userId'') (get_field decoded ''email''), [])))"

text \<open>The token chosen by the handler of \<^verbatim>\<open>GET /auth/me\<close> (lines 266 to 278).\<close>

definition me_token :: "request \<Rightarrow> string option" where
  "me_token req =
     (let token =
        (case authorization req of
           Some authHeader \<Rightarrow>
             if authHeader \<noteq> [] \<and> take 7 authHeader = ''Bearer ''
             then Some (drop 7 authHeader) else None
         | None \<Rightarrow> None)
      in if absent token \<and> cookies req \<noteq> None \<and> \<not> absent (cookie_authToken req)
         then cookie_authToken req else token)"

section \<open>The database wrapper (db) and the salary routes\<close>

text \<open>
  What \<^verbatim>\<open>connection.query\<close> of the mysql2 driver resolves to, first component: an array of rows
  for a SELECT, a result header carrying \<^verbatim>\<open>affectedRows\<close> for INSERT, UPDATE and DELETE.
\<close>

datatype 'r mysql_result = RowData "'r list" | ResultSetHeader nat

datatype 'r item = RowItem 'r | HeaderItem nat

record 'r query_result =
  rows :: "'r item list"
  rowCount :: nat
  affectedRows :: nat

text \<open>
  The object \<^verbatim>\<open>executeQuery\<close> builds from the driver's result. A result header is an object
  and not an array, so it is truthy; its \<^verbatim>\<open>affectedRows\<close> is falsy when it is 0, and the
  \<^verbatim>\<open>||\<close> then takes the right operand.
\<close>

definition executeQuery :: "'r mysql_result \<Rightarrow> 'r query_result" where
  "executeQuery result =
     \<lparr>rows = (case result of RowData rs \<Rightarrow> map RowItem rs | ResultSetHeader n \<Rightarrow> [HeaderItem n]),
      rowCount = (case result of RowData rs \<Rightarrow> length rs | ResultSetHeader n \<Rightarrow> 1),
      affectedRows =
        (case result of
           ResultSetHeader n \<Rightarrow> if n \<noteq> 0 then n else 1
         | RowData rs \<Rightarrow> length rs)\<rparr>"

text \<open>
  The table \<^verbatim>\<open>salary_reminders\<close> and the statements the salary routes send. A row keeps the
  bound parameter as the handler passed it (what an INT column makes of a number that is not
  an integer is the engine's business), the two timestamp columns are left out, and the
  store is taken to answer every statement: a failing connection would lead a handler to
  its catch block and a 500 response.
\<close>

record reminder_row =
  r_id :: string
  r_userId :: string
  r_salaryDate :: rat





definition delete_reminder ::
  "reminder_row list \<Rightarrow> string \<Rightarrow> reminder_row mysql_result \<times> reminder_row list" where
  "delete_reminder tbl u =
     (ResultSetHeader (length (filter (\<lambda>r. r_userId r = u) tbl)),
      filter (\<lambda>r. r_userId r \<noteq> u) tbl)"



text \<open>
  The handler of \<^verbatim>\<open>DELETE /salary\<close>, run after \<^verbatim>\<open>authenticate\<close>: the response, the table
  afterwards and the log lines.
\<close>

definition delete_salary ::
  "request \<Rightarrow> reminder_row list \<Rightarrow> response \<times> reminder_row list \<times> log_entry list" where
  "delete_salary req tbl =
     (case userId req of
        None \<Rightarrow> (failure 401 ''User ID not found in request'', tbl, [])
      | Some uid \<Rightarrow>
          if uid = [] then (failure 401 ''User ID not found in request'', tbl, [])
          else
            let (answer, tbl') = delete_reminder tbl uid;
                result = executeQuery answer;
                deleted = (affectedRows result > 0)
            in (\<lparr>status = 200,
                 json = \<lparr>success = True, data = None, error = None,
                   message = Some (if deleted then ''Salary reminder deleted successfully''
                     else ''Salary reminder not found (already deleted or never existed)'')\<rparr>\<rparr>,
                tbl',
                [(Info,
                  if deleted then ''Salary reminder deleted''
                  else ''Salary reminder delete attempted but not found (idempotent)'',
                  [(''userId'', uid)])]))"


section \<open>Registration (routes/auth)\<close>

text \<open>
  The table \<^verbatim>\<open>users\<close>: \<^verbatim>\<open>id\<close> is the primary key and \<^verbatim>\<open>email\<close> is declared UNIQUE, so the
  engine refuses an INSERT that repeats either. Emails reach the table lower-cased by
  \<^verbatim>\<open>sanitizeEmail\<close>.
\<close>

record user_row =
  u_id :: string
  u_name :: string
  u_email :: string
  u_password :: string

definition select_users_by_email :: "user_row list \<Rightarrow> string \<Rightarrow> user_row list" where
  "select_users_by_email users email = filter (\<lambda>u. u_email u = email) users"

definition insert_user :: "user_row list \<Rightarrow> user_row \<Rightarrow> exn + user_row list" where
  "insert_user users row =
     (if filter (\<lambda>u. u_id u = u_id row \<or> u_email u = u_email row) users \<noteq> []
      then Inl (DuplicateEntry ''Duplicate entry'')
      else Inr (users @ [row]))"

text \<open>
  The outer catch block of the handler: a \<^verbatim>\<open>BadRequestError\<close> or \<^verbatim>\<open>ConflictError\<close> answers
  with its own status code, anything else with 500.
\<close>

fun register_catch :: "exn \<Rightarrow> response" where
  "register_catch (BadRequestError m) = failure 400 m"
| "register_catch (ConflictError m) = failure 409 m"
| "register_catch err = failure 500 (exn_message err)"

text \<open>
  The handler of \<^verbatim>\<open>POST /auth/register\<close> from the start of its transaction, for a request
  that passed validation and sanitizing: \<open>row\<close> holds the sanitized name and email, the
  hashed password and the generated id. Between its SELECT and its INSERT the handler
  awaits, so another request can run in between: the handler is a machine of two steps.
  Cookie and log lines are left out.
\<close>

datatype reg_pc = AtSelect | AtInsert | Finished response

definition reg_step ::
  "((string \<times> js_value) list \<Rightarrow> string \<Rightarrow> string \<Rightarrow> exn + string) \<Rightarrow> env \<Rightarrow> user_row
    \<Rightarrow> user_row list \<times> reg_pc \<Rightarrow> user_row list \<times> reg_pc" where
  "reg_step sign e row st =
     (case st of
        (users, AtSelect) \<Rightarrow>
          if length (select_users_by_email users (u_email row)) > 0
          then (users, Finished (register_catch (ConflictError ''User with this email already exists'')))
          else (users, AtInsert)
      | (users, AtInsert) \<Rightarrow>
          (case insert_user users row of
             Inl err \<Rightarrow> (users, Finished (register_catch err))
           | Inr users' \<Rightarrow>
               (case generateToken sign e (u_id row) (u_email row) of
                  Inl err \<Rightarrow> (users', Finished (register_catch err))
                | Inr token \<Rightarrow>
                    (users',
                     Finished
                       \<lparr>status = 201,
                        json = \<lparr>success = True,
                          data = Some (Object [(''token'', Str token),
                            (''user'', Object [(''id'', Str (u_id row)), (''name'', Str (u_name row)),
                                              (''email'', Str (u_email row))])]),
                          error = None,
                          message = Some ''User registered successfully''\<rparr>\<rparr>)))
      | (users, Finished r) \<Rightarrow> (users, Finished r))"

text \<open>One request handled alone: both steps in a row.\<close>

definition register ::
  "((string \<times> js_value) list \<Rightarrow> string \<Rightarrow> string \<Rightarrow> exn + string) \<Rightarrow> env \<Rightarrow> user_row
    \<Rightarrow> user_row list \<Rightarrow> user_row list \<times> reg_pc" where
  "register sign e row users = reg_step sign e row (reg_step sign e row (users, AtSelect))"

text \<open>
  Two requests handled at the same time: a schedule says whose step is next, \<open>True\<close> for the
  first request and \<open>False\<close> for the second.
\<close>

fun run_two ::
  "((string \<times> js_value) list \<Rightarrow> string \<Rightarrow> string \<Rightarrow> exn + string) \<Rightarrow> env \<Rightarrow> user_row \<Rightarrow> user_row
    \<Rightarrow> bool list \<Rightarrow> user_row list \<times> reg_pc \<times> reg_pc \<Rightarrow> user_row list \<times> reg_pc \<times> reg_pc" where
  "run_two sign e a b [] g = g"
| "run_two sign e a b (first # sched) (users, pa, pb) =
     (if first
      then (case reg_step sign e a (users, pa) of (users', pa') \<Rightarrow> run_two sign e a b sched (users', pa', pb))
      else (case reg_step sign e b (users, pb) of (users', pb') \<Rightarrow> run_two sign e a b sched (users', pa, pb')))"

fun interleave :: "'a list \<Rightarrow> 'a list \<Rightarrow> 'a list list" where
  "interleave [] ys = [ys]"
| "interleave xs [] = [xs]"
| "interleave (x # xs) (y # ys) =
     map ((#) x) (interleave xs (y # ys)) @ map ((#) y) (interleave (x # xs) ys)"

fun status_of :: "reg_pc \<Rightarrow> nat option" where
  "status_of (Finished r) = Some (status r)"
| "status_of pc = None"

section \<open>Sample values\<close>

text \<open>Concrete environments, requests and rows at which the theorems below are instantiated.\<close>

definition demo_env :: env where
  "demo_env = \<lparr>JWT_SECRET = Some ''s3cret'', JWT_EXPIRES_IN = None\<rparr>"

definition demo_mac :: "string \<Rightarrow> (string \<times> js_value) list \<Rightarrow> string" where
  "demo_mac secret claims = secret @ concat (map fst claims)"

definition demo_env_hour :: env where
  "demo_env_hour = \<lparr>JWT_SECRET = Some ''s3cret'', JWT_EXPIRES_IN = Some ''1h''\<rparr>"

definition demo_timespan :: "string \<Rightarrow> int option" where
  "demo_timespan s = (if s = ''7d'' then Some 604800 else if s = ''1h'' then Some 3600 else None)"

definition demo_sign :: "(string \<times> js_value) list \<Rightarrow> string \<Rightarrow> string \<Rightarrow> exn + string" where
  "demo_sign payload secret expires = Inr (secret @ concat (map fst payload))"

definition demo_request :: request where
  "demo_request =
     \<lparr>authorization = None, cookies = None, ip = ''203.0.113.7'', path = ''/salary'',
      body = Undefined, userId = None, userEmail = None\<rparr>"

text \<open>
  What the package's verification does with a string that is not a JSON Web Token, such as
  \<^verbatim>\<open>garbage\<close>: it throws.
\<close>

definition verify_malformed :: "string \<Rightarrow> string \<Rightarrow> exn + js_value" where
  "verify_malformed token secret = Inl (JsonWebTokenError ''jwt malformed'')"

definition ann :: user_row where
  "ann = \<lparr>u_id = ''id1'', u_name = ''Ann'', u_email = ''ann@example.com'', u_password = ''h1''\<rparr>"

definition ann_again :: user_row where
  "ann_again = \<lparr>u_id = ''id2'', u_name = ''Ann B'', u_email = ''ann@example.com'', u_password = ''h2''\<rparr>"

text \<open>
  Two time zones: UTC, and America/New_York between November 2024 and March 2026, with
  its changes of 9 March 2025 (07:00 UTC, to UTC-4) and of 2 November 2025 (06:00 UTC, back
  to UTC-5). A local time that occurs twice is read with the earlier offset, one that is
  skipped likewise, as ECMA-262 says.
\<close>

definition utc :: zone where
  "utc t isUTC = 0"

definition newYork :: zone where
  "newYork t isUTC =
     (if isUTC
      then (if t < 1741503600000 then - 18000000
            else if t < 1762063200000 then - 14400000 else - 18000000)
      else (if t < 1741489200000 then - 18000000
            else if t < 1762048800000 then - 14400000 else - 18000000))"

section \<open>Lemmas on the calendar\<close>

lemma yearFind_bounds:
  "DayFromYear (yearFind n y) \<le> n \<and> n < DayFromYear (yearFind n y + 1)"
proof (induction n y rule: yearFind.induct)
  case (1 n y)
  show ?case
  proof (cases "n < DayFromYear y")
    case True
    with 1 show ?thesis by (subst (1 2) yearFind.simps) simp
  next
    case False
    show ?thesis
    proof (cases "DayFromYear (y + 1) \<le> n")
      case True
      with False 1 show ?thesis by (subst (1 2) yearFind.simps) simp
    next
      case nle: False
      with False show ?thesis by (subst (1 2) yearFind.simps) simp
    qed
  qed
qed

lemma DayFromYear_mono: "y \<le> z \<Longrightarrow> DayFromYear y \<le> DayFromYear z"
proof (induction z rule: int_ge_induct)
  case base
  show ?case by simp
next
  case (step i)
  then show ?case using DayFromYear_less [of i] by simp
qed

lemma year_unique:
  assumes "DayFromYear y \<le> n" "n < DayFromYear (y + 1)"
    and "DayFromYear z \<le> n" "n < DayFromYear (z + 1)"
  shows "y = z"
proof (rule ccontr)
  assume "y \<noteq> z"
  then consider "y + 1 \<le> z" | "z + 1 \<le> y" by linarith
  then show False
  proof cases
    case 1
    from DayFromYear_mono [OF 1] assms show False by simp
  next
    case 2
    from DayFromYear_mono [OF 2] assms show False by simp
  qed
qed

lemma YearFromTime_bounds:
  "DayFromYear (YearFromTime t) \<le> Day t \<and> Day t < DayFromYear (YearFromTime t + 1)"
  unfolding YearFromTime_def by (rule yearFind_bounds)

lemma DayWithinYear_range: "0 \<le> DayWithinYear t \<and> DayWithinYear t < DaysInYear (YearFromTime t)"
  using YearFromTime_bounds [of t] DayFromYear_step [of "YearFromTime t"]
  by (simp add: DayWithinYear_def)

lemma MonthFromTime_range: "0 \<le> MonthFromTime t \<and> MonthFromTime t \<le> 11"
  by (simp add: MonthFromTime_def Let_def)

lemma month_cases:
  fixes m :: int
  assumes "0 \<le> m" "m \<le> 11"
  shows "m = 0 \<or> m = 1 \<or> m = 2 \<or> m = 3 \<or> m = 4 \<or> m = 5 \<or> m = 6 \<or> m = 7
    \<or> m = 8 \<or> m = 9 \<or> m = 10 \<or> m = 11"
  using assms by arith

lemma DateFromTime_eq:
  "DateFromTime t = DayWithinYear t - monthStart (YearFromTime t) (MonthFromTime t) + 1"
  using month_cases [OF MonthFromTime_range [of t, THEN conjunct1] MonthFromTime_range [of t, THEN conjunct2]]
  unfolding DateFromTime_def monthStart_def InLeapYear_def DaysInYear_def Let_def
  by (elim disjE) simp_all

lemma MonthFromTime_span:
  "monthStart (YearFromTime t) (MonthFromTime t) \<le> DayWithinYear t \<and>
   DayWithinYear t < monthStart (YearFromTime t) (MonthFromTime t)
     + daysInMonth (YearFromTime t) (MonthFromTime t)"
proof (cases "leapYear (YearFromTime t)")
  case True
  then show ?thesis
    using DayWithinYear_range [of t]
    unfolding MonthFromTime_def InLeapYear_def DaysInYear_def Let_def monthStart_def daysInMonth_def
    by simp
next
  case False
  then show ?thesis
    using DayWithinYear_range [of t]
    unfolding MonthFromTime_def InLeapYear_def DaysInYear_def Let_def monthStart_def daysInMonth_def
    by simp
qed

lemma DateFromTime_range:
  "1 \<le> DateFromTime t \<and> DateFromTime t \<le> daysInMonth (YearFromTime t) (MonthFromTime t)"
  using MonthFromTime_span [of t] by (simp add: DateFromTime_eq)

lemma monthStart_in_year:
  assumes m: "0 \<le> m" "m \<le> 11" and d: "1 \<le> d" "d \<le> daysInMonth y m"
  shows "0 \<le> monthStart y m + d - 1 \<and> monthStart y m + d - 1 < DaysInYear y"
  using month_cases [OF m] d
  unfolding monthStart_def daysInMonth_def DaysInYear_def Let_def
  by (elim disjE) (simp_all split: if_splits)

lemma Day_fields:
  "Day t = MakeDay (YearFromTime t) (MonthFromTime t) (DateFromTime t)"
proof -
  have "MonthFromTime t div 12 = 0" "MonthFromTime t mod 12 = MonthFromTime t"
    using MonthFromTime_range [of t] by simp_all
  then show ?thesis
    by (simp add: MakeDay_def DateFromTime_eq DayWithinYear_def)
qed

lemma month_of_offset:
  assumes m: "0 \<le> m" "m \<le> 11" and d: "1 \<le> d" "d \<le> daysInMonth y m"
    and y: "YearFromTime t = y" and w: "DayWithinYear t = monthStart y m + d - 1"
  shows "MonthFromTime t = m"
proof (cases "leapYear y")
  case True
  from month_cases [OF m] d True show ?thesis
    unfolding MonthFromTime_def w InLeapYear_def y monthStart_def daysInMonth_def
      DaysInYear_def Let_def
    by (elim disjE) simp_all
next
  case False
  from month_cases [OF m] d False show ?thesis
    unfolding MonthFromTime_def w InLeapYear_def y monthStart_def daysInMonth_def
      DaysInYear_def Let_def
    by (elim disjE) simp_all
qed

lemma fields_of_Day:
  assumes m: "0 \<le> m" "m \<le> 11" and d: "1 \<le> d" "d \<le> daysInMonth y m"
    and t: "Day t = DayFromYear y + monthStart y m + d - 1"
  shows "YearFromTime t = y \<and> MonthFromTime t = m \<and> DateFromTime t = d"
proof -
  have r: "0 \<le> monthStart y m + d - 1 \<and> monthStart y m + d - 1 < DaysInYear y"
    using m d by (rule monthStart_in_year)
  have "DayFromYear y \<le> Day t" "Day t < DayFromYear (y + 1)"
    using r t by (simp_all add: DayFromYear_step)
  with YearFromTime_bounds [of t] have y: "YearFromTime t = y"
    by (metis year_unique)
  have w: "DayWithinYear t = monthStart y m + d - 1"
    using t by (simp add: DayWithinYear_def y)
  have mo: "MonthFromTime t = m"
    using m d y w by (rule month_of_offset)
  have "DateFromTime t = d"
    by (simp add: DateFromTime_eq mo y w)
  with y mo show ?thesis by simp
qed

lemma daysInMonth_bounds: "28 \<le> daysInMonth y m \<and> daysInMonth y m \<le> 31"
  by (simp add: daysInMonth_def)

lemma MakeDay_normal:
  "0 \<le> m \<Longrightarrow> m \<le> 11 \<Longrightarrow> MakeDay y m d = DayFromYear y + monthStart y m + d - 1"
  by (simp add: MakeDay_def)

lemma MakeDay_shift: "MakeDay y m (d + k) = MakeDay y m d + k"
  by (simp add: MakeDay_def Let_def)

lemma monthStart_next:
  assumes m: "0 \<le> m" "m \<le> 10"
  shows "monthStart y (m + 1) = monthStart y m + daysInMonth y m"
proof -
  have "m \<le> 11" using m by simp
  from month_cases [OF m(1) this] m(2) show ?thesis
    unfolding monthStart_def daysInMonth_def Let_def
    by (elim disjE) simp_all
qed

lemma MakeDay_next_month:
  assumes m: "0 \<le> m" "m \<le> 11"
  shows "MakeDay y (m + 1) d = MakeDay y m d + daysInMonth y m"
proof (cases "m = 11")
  case True
  have "MakeDay y 12 d = DayFromYear (y + 1) + d - 1"
    by (simp add: MakeDay_def monthStart_def)
  moreover have "MakeDay y 11 d + daysInMonth y 11 = DayFromYear y + DaysInYear y + d - 1"
    by (simp add: MakeDay_def monthStart_def daysInMonth_def DaysInYear_def)
  ultimately show ?thesis using True by (simp add: DayFromYear_step)
next
  case False
  then have m': "m \<le> 10" using m by simp
  then have "0 \<le> m + 1" "m + 1 \<le> 11" using m by simp_all
  then show ?thesis
    using m monthStart_next [OF m(1) m'] by (simp add: MakeDay_normal)
qed

lemma Day_mult: "Day (n * msPerDay) = n"
  by (simp add: Day_def msPerDay_def)

lemma fields_of_MakeDay:
  assumes d: "1 \<le> d" "d \<le> daysInMonth (y + m div 12) (m mod 12)"
  shows "YearFromTime (MakeDay y m d * msPerDay) = y + m div 12 \<and>
         MonthFromTime (MakeDay y m d * msPerDay) = m mod 12 \<and>
         DateFromTime (MakeDay y m d * msPerDay) = d"
proof (rule fields_of_Day [OF _ _ d])
  show "0 \<le> m mod 12" "m mod 12 \<le> 11" by simp_all
  show "Day (MakeDay y m d * msPerDay)
      = DayFromYear (y + m div 12) + monthStart (y + m div 12) (m mod 12) + d - 1"
    by (simp add: Day_mult MakeDay_def Let_def)
qed

text \<open>A clock reading and the calendar fields the component reads from it.\<close>

lemma today_MakeDay:
  "MakeDay (getFullYear tz t) (getMonth tz t) k = Day (LocalTime tz t) - getDate tz t + k"
proof -
  have "MakeDay (getFullYear tz t) (getMonth tz t) (getDate tz t + (k - getDate tz t))
      = Day (LocalTime tz t) + (k - getDate tz t)"
    unfolding MakeDay_shift getFullYear_def getMonth_def getDate_def
    by (simp add: Day_fields [symmetric])
  then show ?thesis by simp
qed

lemma midnight_read_back:
  "midnight_kept tz \<Longrightarrow> LocalTime tz (UTC tz (n * msPerDay)) = n * msPerDay"
  by (simp add: midnight_kept_def)

lemma midnight_offset:
  assumes "midnight_kept tz"
  shows "tz (UTC tz (n * msPerDay)) True = tz (n * msPerDay) False"
  using midnight_read_back [OF assms, of n] by (simp add: LocalTime_def UTC_def)

lemma getDate_day31:
  assumes z: "midnight_kept tz"
    and yr: "MakeFullYear (getFullYear tz t) = getFullYear tz t"
  shows "getDate tz (Date_ymd tz (getFullYear tz t) (getMonth tz t) 31) = 31
     \<longleftrightarrow> daysInMonth (getFullYear tz t) (getMonth tz t) = 31"
proof -
  define y where "y = getFullYear tz t"
  define m where "m = getMonth tz t"
  define len where "len = daysInMonth y m"
  have m: "0 \<le> m" "m \<le> 11"
    using MonthFromTime_range [of "LocalTime tz t"] by (simp_all add: m_def getMonth_def)
  have len: "28 \<le> len" "len \<le> 31"
    using daysInMonth_bounds [of y m] by (simp_all add: len_def)
  have md: "m div 12 = 0" "m mod 12 = m" using m by simp_all
  have g: "getDate tz (Date_ymd tz y m 31) = DateFromTime (MakeDay y m 31 * msPerDay)"
    using yr by (simp add: getDate_def Date_ymd_def y_def midnight_read_back [OF z])
  show ?thesis
  proof (cases "len = 31")
    case True
    have "DateFromTime (MakeDay y m 31 * msPerDay) = 31"
      using fields_of_MakeDay [of 31 y m] True by (simp add: md len_def)
    then show ?thesis
      using True g by (simp add: y_def m_def len_def)
  next
    case False
    define k where "k = 31 - len"
    have k: "1 \<le> k" "k \<le> 3" using len False by (simp_all add: k_def)
    have "k \<le> daysInMonth (y + (m + 1) div 12) ((m + 1) mod 12)"
      using daysInMonth_bounds [of "y + (m + 1) div 12" "(m + 1) mod 12"] k by simp
    with k have "DateFromTime (MakeDay y (m + 1) k * msPerDay) = k"
      using fields_of_MakeDay [of k y "m + 1"] by simp
    moreover have "MakeDay y (m + 1) k = MakeDay y m 31"
      using MakeDay_next_month [OF m, of y k] MakeDay_shift [of y m k len]
      by (simp add: k_def len_def)
    ultimately have "DateFromTime (MakeDay y m 31 * msPerDay) = k" by simp
    then show ?thesis
      using False k g by (simp add: y_def m_def len_def)
  qed
qed

text \<open>
  The next salary date in closed form: local midnight of the day that lies the stated
  number of days after the day of the clock reading.
\<close>

lemma nextSalaryDate_eq:
  assumes z: "midnight_kept tz"
    and yr: "MakeFullYear (getFullYear tz t) = getFullYear tz t" and D: "1 \<le> D" "D \<le> 31"
  shows "nextSalaryDate tz D t =
     UTC tz ((Day (LocalTime tz t) +
       (if D < getDate tz t then daysInMonth (getFullYear tz t) (getMonth tz t) - getDate tz t + D
        else if D = 31 \<and> daysInMonth (getFullYear tz t) (getMonth tz t) \<noteq> 31
          then daysInMonth (getFullYear tz t) (getMonth tz t) - getDate tz t
        else D - getDate tz t)) * msPerDay)"
proof -
  define y where "y = getFullYear tz t"
  define m where "m = getMonth tz t"
  define c where "c = getDate tz t"
  define len where "len = daysInMonth y m"
  define n where "n = Day (LocalTime tz t)"
  have m: "0 \<le> m" "m \<le> 11"
    using MonthFromTime_range [of "LocalTime tz t"] by (simp_all add: m_def getMonth_def)
  have c: "1 \<le> c" "c \<le> len"
    using DateFromTime_range [of "LocalTime tz t"]
    by (simp_all add: c_def len_def y_def m_def getDate_def getFullYear_def getMonth_def)
  have len: "len \<le> 31" using daysInMonth_bounds [of y m] by (simp add: len_def)
  have "MakeDay y m k = n + (k - c)" for k
    using today_MakeDay [of tz t k] by (simp add: y_def m_def c_def n_def)
  then have this_month: "Date_ymd tz y m k = UTC tz ((n + (k - c)) * msPerDay)" for k
    using yr by (simp add: Date_ymd_def y_def)
  have "MakeDay y (m + 1) k = n + (len - c + k)" for k
    using today_MakeDay [of tz t k] MakeDay_next_month [OF m, of y k]
    by (simp add: y_def m_def c_def len_def n_def)
  then have next_month: "Date_ymd tz y (m + 1) k = UTC tz ((n + (len - c + k)) * msPerDay)" for k
    using yr by (simp add: Date_ymd_def y_def)
  have g31: "getDate tz (Date_ymd tz y m 31) = 31 \<longleftrightarrow> len = 31"
    using getDate_day31 [OF z yr] by (simp add: y_def m_def len_def)
  show ?thesis
  proof (cases "D < c")
    case True
    then have "D \<noteq> 31" using c len by simp
    with True show ?thesis
      unfolding nextSalaryDate_def Let_def y_def [symmetric] m_def [symmetric] c_def [symmetric]
        len_def [symmetric] n_def [symmetric]
      by (simp add: next_month)
  next
    case False
    show ?thesis
    proof (cases "D = 31")
      case True
      with False show ?thesis
        unfolding nextSalaryDate_def Let_def y_def [symmetric] m_def [symmetric]
          c_def [symmetric] len_def [symmetric] n_def [symmetric]
        by (simp add: g31) (simp add: next_month this_month)
    next
      case ne: False
      with False show ?thesis
        unfolding nextSalaryDate_def Let_def y_def [symmetric] m_def [symmetric]
          c_def [symmetric] len_def [symmetric] n_def [symmetric]
        by (simp add: this_month)
    qed
  qed
qed

lemma ceil_whole_days:
  "Math_ceil_div ((Day t + j) * msPerDay - t) 86400000 = j"
proof -
  define r where "r = t mod msPerDay"
  have t: "t = Day t * msPerDay + r" by (simp add: Day_def r_def)
  have r: "0 \<le> r" "r < msPerDay" by (simp_all add: r_def msPerDay_def)
  have "- ((Day t + j) * msPerDay - t) = r + (- j) * msPerDay"
    by (subst (2) t) (simp add: algebra_simps)
  moreover have "(r + (- j) * msPerDay) div msPerDay = (- j) + r div msPerDay"
    by (rule div_mult_self1) (simp add: msPerDay_def)
  moreover have "r div msPerDay = 0" using r by simp
  moreover have "(86400000 :: int) = msPerDay" by (simp add: msPerDay_def)
  ultimately show ?thesis by (simp add: Math_ceil_div_def)
qed

text \<open>
  The difference of the two time values is the difference of the two local times when the
  offset in force at the salary date is the one in force at the clock reading.
\<close>

lemma diffTime_same_offset:
  assumes z: "midnight_kept tz"
    and off: "tz (UTC tz (n * msPerDay)) True = tz t True"
  shows "getTime (UTC tz (n * msPerDay)) - getTime t = n * msPerDay - LocalTime tz t"
proof -
  have "tz (n * msPerDay) False = tz t True"
    using midnight_offset [OF z, of n] off by simp
  then show ?thesis by (simp add: getTime_def UTC_def LocalTime_def)
qed

lemma calculateDaysRemaining_eq:
  assumes z: "midnight_kept tz"
    and yr: "MakeFullYear (getFullYear tz t) = getFullYear tz t" and D: "1 \<le> D" "D \<le> 31"
    and off: "tz (nextSalaryDate tz D t) True = tz t True"
  shows "calculateDaysRemaining tz D t =
     Some (if D < getDate tz t then daysInMonth (getFullYear tz t) (getMonth tz t) - getDate tz t + D
        else if D = 31 \<and> daysInMonth (getFullYear tz t) (getMonth tz t) \<noteq> 31
          then daysInMonth (getFullYear tz t) (getMonth tz t) - getDate tz t
        else D - getDate tz t)"
proof -
  define j where "j =
    (if D < getDate tz t then daysInMonth (getFullYear tz t) (getMonth tz t) - getDate tz t + D
     else if D = 31 \<and> daysInMonth (getFullYear tz t) (getMonth tz t) \<noteq> 31
       then daysInMonth (getFullYear tz t) (getMonth tz t) - getDate tz t
     else D - getDate tz t)"
  have c: "1 \<le> getDate tz t" "getDate tz t \<le> daysInMonth (getFullYear tz t) (getMonth tz t)"
    using DateFromTime_range [of "LocalTime tz t"]
    by (simp_all add: getDate_def getFullYear_def getMonth_def)
  have j: "0 \<le> j" using c D by (simp add: j_def)
  have n: "nextSalaryDate tz D t = UTC tz ((Day (LocalTime tz t) + j) * msPerDay)"
    using nextSalaryDate_eq [OF z yr D] by (simp add: j_def)
  have "getTime (nextSalaryDate tz D t) - getTime t
      = (Day (LocalTime tz t) + j) * msPerDay - LocalTime tz t"
    unfolding n by (rule diffTime_same_offset [OF z]) (use off n in simp)
  then have "calculateDaysRemaining tz D t = Some j"
    using D j by (simp add: calculateDaysRemaining_def Let_def ceil_whole_days daysResult_def)
  then show ?thesis by (simp add: j_def)
qed

lemma midnight_kept_utc: "midnight_kept utc"
  by (simp add: midnight_kept_def LocalTime_def UTC_def utc_def)

lemma midnight_kept_newYork: "midnight_kept newYork"
  unfolding midnight_kept_def
proof (intro allI impI)
  fix l :: int
  assume "l mod msPerDay = 0"
  then have l: "l = (l div msPerDay) * msPerDay" by (simp add: mod_eq_0_iff_dvd)
  define k where "k = l div msPerDay"
  have lk: "l = k * 86400000" using l by (simp add: k_def msPerDay_def)
  consider "k \<le> 20156" | "20157 \<le> k" "k \<le> 20394" | "20395 \<le> k" by linarith
  then show "LocalTime newYork (UTC newYork l) = l"
  proof cases
    case 1
    then show ?thesis by (simp add: lk LocalTime_def UTC_def newYork_def)
  next
    case 2
    then show ?thesis by (simp add: lk LocalTime_def UTC_def newYork_def)
  next
    case 3
    then show ?thesis by (simp add: lk LocalTime_def UTC_def newYork_def)
  qed
qed

section \<open>Lemmas on the backend\<close>

lemma verifyToken_never_throws: "\<exists>r. verifyToken verify e token = Inr r"
  by (simp add: verifyToken_def split: sum.splits)

lemma verifyToken_rejected:
  "getJWTSecret e = Inr secret \<Longrightarrow> verify token secret = Inl err \<Longrightarrow>
    verifyToken verify e token = Inr None"
  by (simp add: verifyToken_def)

lemma verifyToken_no_secret:
  "getJWTSecret e = Inl err \<Longrightarrow> verifyToken verify e token = Inr None"
  by (simp add: verifyToken_def)

lemma delete_salary_always_deleted:
  assumes "uid \<noteq> []"
  shows "fst (delete_salary (req\<lparr>userId := Some uid\<rparr>) tbl) =
     \<lparr>status = 200,
      json = \<lparr>success = True, data = None, error = None,
        message = Some ''Salary reminder deleted successfully''\<rparr>\<rparr>"
  using assms
  by (simp add: delete_salary_def delete_reminder_def executeQuery_def Let_def)

lemma filter_or_empty:
  "filter P xs = [] \<Longrightarrow> filter Q xs = [] \<Longrightarrow> filter (\<lambda>x. P x \<or> Q x) xs = []"
  by (auto simp: filter_empty_conv)

lemma filter_key_absent: "k \<notin> set (map f xs) \<Longrightarrow> filter (\<lambda>x. f x = k) xs = []"
  by (induction xs) auto

lemma select_users_none:
  "email \<notin> set (map u_email users) \<Longrightarrow> select_users_by_email users email = []"
  by (simp add: select_users_by_email_def filter_key_absent)

lemma insert_user_fresh:
  assumes "u_email row \<notin> set (map u_email users)" "u_id row \<notin> set (map u_id users)"
  shows "insert_user users row = Inr (users @ [row])"
proof -
  have "filter (\<lambda>u. u_id u = u_id row) users = []"
    "filter (\<lambda>u. u_email u = u_email row) users = []"
    using assms by (simp_all add: filter_key_absent)
  then have "filter (\<lambda>u. u_id u = u_id row \<or> u_email u = u_email row) users = []"
    by (rule filter_or_empty)
  then show ?thesis by (simp add: insert_user_def)
qed

lemma insert_user_taken:
  "u_email row = u_email other \<Longrightarrow> insert_user (users @ [other]) row = Inl (DuplicateEntry ''Duplicate entry'')"
  by (simp add: insert_user_def)

lemma select_users_after_insert:
  "email \<notin> set (map u_email users) \<Longrightarrow> u_email other = email \<Longrightarrow>
    select_users_by_email (users @ [other]) email = [other]"
  by (simp add: select_users_by_email_def filter_key_absent)

lemma register_duplicate:
  assumes "u_email row \<in> set (map u_email store)"
  shows "register sign env row store =
    (store, Finished \<lparr>status = 409, json = \<lparr>success = False, data = None,
        error = Some ''User with this email already exists'', message = None\<rparr>\<rparr>)"
proof -
  have "filter (\<lambda>u. u_email u = u_email row) store \<noteq> []"
    using assms by (auto simp: filter_empty_conv)
  then show ?thesis
    by (simp add: register_def reg_step_def select_users_by_email_def failure_def)
qed

text \<open>
  Two registrations for the same new email, handled at the same time: in every order of
  their steps exactly one of them succeeds (201) and the table ends with exactly one user of
  that email, the INSERT of the other one being refused by the engine's UNIQUE constraint on
  \<^verbatim>\<open>email\<close> even when its own SELECT had found nothing. The one that fails is answered with
  409 when its SELECT saw the winner's row and with 500 when the constraint stopped its
  INSERT.
\<close>

lemma registration_race_one_winner:
  assumes present: "u_email row \<in> set (map u_email store)"
    and tokA: "generateToken sign env (u_id a) (u_email a) = Inr tokA"
    and tokB: "generateToken sign env (u_id b) (u_email b) = Inr tokB"
    and same: "u_email a = u_email b"
    and newE: "u_email a \<notin> set (map u_email users)"
    and newA: "u_id a \<notin> set (map u_id users)"
    and newB: "u_id b \<notin> set (map u_id users)"
  shows "register sign env row store =
      (store, Finished \<lparr>status = 409, json = \<lparr>success = False, data = None,
          error = Some ''User with this email already exists'', message = None\<rparr>\<rparr>) \<and>
    (\<forall>sched \<in> set (interleave [True, True] [False, False]).
      (case run_two sign env a b sched (users, AtSelect, AtSelect) of
         (users', pa, pb) \<Rightarrow>
           ((status_of pa = Some 201) \<noteq> (status_of pb = Some 201)) \<and>
           status_of pa \<in> {Some 201, Some 409, Some 500} \<and>
           status_of pb \<in> {Some 201, Some 409, Some 500} \<and>
           length (select_users_by_email users' (u_email a)) = 1))"
proof
  show "register sign env row store =
      (store, Finished \<lparr>status = 409, json = \<lparr>success = False, data = None,
          error = Some ''User with this email already exists'', message = None\<rparr>\<rparr>)"
    using present by (rule register_duplicate)
next
  have newE': "u_email b \<notin> set (map u_email users)" using newE same by simp
  have s0: "select_users_by_email users (u_email a) = []"
    "select_users_by_email users (u_email b) = []"
    using newE newE' by (simp_all add: select_users_none)
  have iA: "insert_user users a = Inr (users @ [a])"
    using newE newA by (rule insert_user_fresh)
  have iB: "insert_user users b = Inr (users @ [b])"
    using newE' newB by (rule insert_user_fresh)
  have dA: "insert_user (users @ [b]) a = Inl (DuplicateEntry ''Duplicate entry'')"
    using same by (rule insert_user_taken)
  have dB: "insert_user (users @ [a]) b = Inl (DuplicateEntry ''Duplicate entry'')"
    using same [symmetric] by (rule insert_user_taken)
  have sA: "select_users_by_email (users @ [a]) (u_email a) = [a]"
    "select_users_by_email (users @ [a]) (u_email b) = [a]"
    using newE newE' same by (simp_all add: select_users_after_insert)
  have sB: "select_users_by_email (users @ [b]) (u_email a) = [b]"
    "select_users_by_email (users @ [b]) (u_email b) = [b]"
    using newE newE' same by (simp_all add: select_users_after_insert)
  note facts = s0 iA iB dA dB sA sB tokA tokB reg_step_def failure_def
  have 1: "run_two sign env a b [True, True, False, False] (users, AtSelect, AtSelect)
      = (users @ [a],
         Finished \<lparr>status = 201, json = \<lparr>success = True,
           data = Some (Object [(''token'', Str tokA),
             (''user'', Object [(''id'', Str (u_id a)), (''name'', Str (u_name a)),
                               (''email'', Str (u_email a))])]),
           error = None, message = Some ''User registered successfully''\<rparr>\<rparr>,
         Finished (failure 409 ''User with this email already exists''))"
    by (simp add: facts)
  have 2: "run_two sign env a b [True, False, True, False] (users, AtSelect, AtSelect)
      = (users @ [a],
         Finished \<lparr>status = 201, json = \<lparr>success = True,
           data = Some (Object [(''token'', Str tokA),
             (''user'', Object [(''id'', Str (u_id a)), (''name'', Str (u_name a)),
                               (''email'', Str (u_email a))])]),
           error = None, message = Some ''User registered successfully''\<rparr>\<rparr>,
         Finished (failure 500 ''Duplicate entry''))"
    by (simp add: facts)
  have 3: "run_two sign env a b [True, False, False, True] (users, AtSelect, AtSelect)
      = (users @ [b],
         Finished (failure 500 ''Duplicate entry''),
         Finished \<lparr>status = 201, json = \<lparr>success = True,
           data = Some (Object [(''token'', Str tokB),
             (''user'', Object [(''id'', Str (u_id b)), (''name'', Str (u_name b)),
                               (''email'', Str (u_email b))])]),
           error = None, message = Some ''User registered successfully''\<rparr>\<rparr>)"
    by (simp add: facts)
  have 4: "run_two sign env a b [False, True, True, False] (users, AtSelect, AtSelect)
      = (users @ [a],
         Finished \<lparr>status = 201, json = \<lparr>success = True,
           data = Some (Object [(''token'', Str tokA),
             (''user'', Object [(''id'', Str (u_id a)), (''name'', Str (u_name a)),
                               (''email'', Str (u_email a))])]),
           error = None, message = Some ''User registered successfully''\<rparr>\<rparr>,
         Finished (failure 500 ''Duplicate entry''))"
    by (simp add: facts)
  have 5: "run_two sign env a b [False, True, False, True] (users, AtSelect, AtSelect)
      = (users @ [b],
         Finished (failure 500 ''Duplicate entry''),
         Finished \<lparr>status = 201, json = \<lparr>success = True,
           data = Some (Object [(''token'', Str tokB),
             (''user'', Object [(''id'', Str (u_id b)), (''name'', Str (u_name b)),
                               (''email'', Str (u_email b))])]),
           error = None, message = Some ''User registered successfully''\<rparr>\<rparr>)"
    by (simp add: facts)
  have 6: "run_two sign env a b [False, False, True, True] (users, AtSelect, AtSelect)
      = (users @ [b],
         Finished (failure 409 ''User with this email already exists''),
         Finished \<lparr>status = 201, json = \<lparr>success = True,
           data = Some (Object [(''token'', Str tokB),
             (''user'', Object [(''id'', Str (u_id b)), (''name'', Str (u_name b)),
                               (''email'', Str (u_email b))])]),
           error = None, message = Some ''User registered successfully''\<rparr>\<rparr>)"
    by (simp add: facts)
  show "\<forall>sched \<in> set (interleave [True, True] [False, False]).
      (case run_two sign env a b sched (users, AtSelect, AtSelect) of
         (users', pa, pb) \<Rightarrow>
           ((status_of pa = Some 201) \<noteq> (status_of pb = Some 201)) \<and>
           status_of pa \<in> {Some 201, Some 409, Some 500} \<and>
           status_of pb \<in> {Some 201, Some 409, Some 500} \<and>
           length (select_users_by_email users' (u_email a)) = 1)"
    by (simp add: 1 2 3 4 5 6 sA sB failure_def del: run_two.simps)
qed

section \<open>The claims\<close>

text \<open>
  Claim C1. With salary day 31 and a clock reading in a month that has fewer than 31 days,
  the next salary date is the last day of that same month, not a date in the following
  month: 28 February 2025 for a reading on 20 February 2025, and 8 days remain. The number
  of days is the distance to that last day when the UTC offset in force at the salary date
  is the one in force at the reading.
  The time zone is one that skips no local midnight, and the year of the reading is taken
  outside 0..99, which the Date constructor reads as 1900..1999.
\<close>

theorem C1_day31_is_last_day_of_short_month:
  assumes z: "midnight_kept tz"
    and yr: "getFullYear tz today < 0 \<or> 99 < getFullYear tz today"
    and short: "daysInMonth (getFullYear tz today) (getMonth tz today) \<noteq> 31"
  shows "nextSalaryDate tz 31 today =
      Date_ymd tz (getFullYear tz today) (getMonth tz today)
        (daysInMonth (getFullYear tz today) (getMonth tz today)) \<and>
    getFullYear tz (nextSalaryDate tz 31 today) = getFullYear tz today \<and>
    getMonth tz (nextSalaryDate tz 31 today) = getMonth tz today \<and>
    getDate tz (nextSalaryDate tz 31 today)
      = daysInMonth (getFullYear tz today) (getMonth tz today) \<and>
    (tz (nextSalaryDate tz 31 today) True = tz today True \<longrightarrow>
      calculateDaysRemaining tz 31 today =
        Some (daysInMonth (getFullYear tz today) (getMonth tz today) - getDate tz today))"
proof -
  define y where "y = getFullYear tz today"
  define m where "m = getMonth tz today"
  define len where "len = daysInMonth y m"
  have full: "MakeFullYear (getFullYear tz today) = getFullYear tz today"
    using yr by (auto simp: MakeFullYear_def)
  have m: "0 \<le> m" "m \<le> 11"
    using MonthFromTime_range [of "LocalTime tz today"] by (simp_all add: m_def getMonth_def)
  have md: "m div 12 = 0" "m mod 12 = m" using m by simp_all
  have c: "getDate tz today \<le> 31"
    using DateFromTime_range [of "LocalTime tz today"] daysInMonth_bounds [of y m]
    by (simp add: getDate_def y_def m_def getFullYear_def getMonth_def)
  have "nextSalaryDate tz 31 today
      = UTC tz ((Day (LocalTime tz today) + (len - getDate tz today)) * msPerDay)"
    using nextSalaryDate_eq [OF z full, of 31] short c by (simp add: y_def m_def len_def)
  also have "\<dots> = Date_ymd tz y m len"
  proof -
    have "MakeDay y m len = Day (LocalTime tz today) + (len - getDate tz today)"
      using today_MakeDay [of tz today len] by (simp add: y_def m_def)
    then show ?thesis using full by (simp add: Date_ymd_def y_def)
  qed
  finally have n: "nextSalaryDate tz 31 today = Date_ymd tz y m len" .
  have "1 \<le> len" "len \<le> daysInMonth (y + m div 12) (m mod 12)"
    using daysInMonth_bounds [of y m] by (simp_all add: len_def md)
  from fields_of_MakeDay [OF this]
  have f: "getFullYear tz (Date_ymd tz y m len) = y" "getMonth tz (Date_ymd tz y m len) = m"
    "getDate tz (Date_ymd tz y m len) = len"
    using full
    by (simp_all add: Date_ymd_def getFullYear_def getMonth_def getDate_def md y_def
        midnight_read_back [OF z])
  have d: "calculateDaysRemaining tz 31 today = Some (len - getDate tz today)"
    if "tz (nextSalaryDate tz 31 today) True = tz today True"
    using calculateDaysRemaining_eq [OF z full _ _ that] short c
    by (simp add: y_def m_def len_def)
  from n f d show ?thesis by (simp add: y_def m_def len_def)
qed

theorem C1_day31_is_last_day_of_short_month_witness:
  "midnight_kept newYork \<and>
   (getFullYear newYork 1740065400000 < 0 \<or> 99 < getFullYear newYork 1740065400000) \<and>
   daysInMonth (getFullYear newYork 1740065400000) (getMonth newYork 1740065400000) \<noteq> 31 \<and>
   getDate newYork 1740065400000 = 20 \<and>
   nextSalaryDate newYork 31 1740065400000 = Date_ymd newYork 2025 1 28 \<and>
   getFullYear newYork (nextSalaryDate newYork 31 1740065400000) = 2025 \<and>
   getMonth newYork (nextSalaryDate newYork 31 1740065400000) = 1 \<and>
   getDate newYork (nextSalaryDate newYork 31 1740065400000) = 28 \<and>
   newYork (nextSalaryDate newYork 31 1740065400000) True = newYork 1740065400000 True \<and>
   calculateDaysRemaining newYork 31 1740065400000 = Some 8"
proof -
  have y: "getFullYear newYork 1740065400000 = 2025" by code_simp
  have m: "getMonth newYork 1740065400000 = 1" by code_simp
  have d: "getDate newYork 1740065400000 = 20" by code_simp
  have l: "daysInMonth 2025 1 = 28" by code_simp
  have o: "newYork (nextSalaryDate newYork 31 1740065400000) True = newYork 1740065400000 True"
    by code_simp
  have h1: "getFullYear newYork 1740065400000 < 0 \<or> 99 < getFullYear newYork 1740065400000"
    by (simp add: y)
  have h2: "daysInMonth (getFullYear newYork 1740065400000) (getMonth newYork 1740065400000) \<noteq> 31"
    by (simp add: y m l)
  have e: "(28::int) - 20 = 8" by simp
  show ?thesis
    using C1_day31_is_last_day_of_short_month [OF midnight_kept_newYork h1 h2, unfolded y m d l e]
      midnight_kept_newYork h1 h2 d o
    by blast
qed


text \<open>
  Claim C2 (amended). With the signing secret configured, a token issued by
  \<^verbatim>\<open>generateToken(u, e)\<close> at clock \<open>t\<close> and verified at any clock \<open>t'\<close> strictly before
  its expiry is accepted; the expiry is \<open>t\<close> plus the time span set in \<^verbatim>\<open>JWT_EXPIRES_IN\<close>, or
  plus seven days when that variable is unset or empty. The result is the decoded payload:
  its user id and email are exactly \<open>u\<close> and \<open>e\<close>, and it also carries the issuing time
  \<^verbatim>\<open>iat\<close> and the expiry \<^verbatim>\<open>exp\<close>.
\<close>

theorem C2_verify_after_issue:
  assumes secret: "JWT_SECRET env = Some secret" "secret \<noteq> []"
    and setting: "(JWT_EXPIRES_IN env = Some setting \<and> setting \<noteq> [])
      \<or> ((JWT_EXPIRES_IN env = None \<or> JWT_EXPIRES_IN env = Some []) \<and> setting = ''7d'')"
    and d: "timespan setting = Some d"
    and before: "t' < t + d"
  shows "\<exists>token decoded.
      generateToken (jwt_sign mac timespan t) env u e = Inr token \<and>
      verifyToken (jwt_verify mac t') env token = Inr (Some decoded) \<and>
      decoded = Object [(''userId'', Str u), (''email'', Str e),
                        (''iat'', Number (of_int t)), (''exp'', Number (of_int (t + d)))] \<and>
      get_field decoded ''userId'' = Str u \<and> get_field decoded ''email'' = Str e"
proof -
  have s: "getJWTSecret env = Inr secret"
    using secret by (simp add: getJWTSecret_def)
  have x: "expiresIn env = setting"
    using setting by (auto simp: expiresIn_def)
  show ?thesis
    using s x d before
    by (simp add: generateToken_def jwt_sign_def verifyToken_def jwt_verify_def Let_def)
qed

theorem C2_verify_after_issue_witness:
  "JWT_SECRET demo_env_hour = Some ''s3cret'' \<and> ''s3cret'' \<noteq> [] \<and>
   JWT_EXPIRES_IN demo_env_hour = Some ''1h'' \<and> ''1h'' \<noteq> [] \<and>
   demo_timespan ''1h'' = Some 3600 \<and>
   (1700003599::int) < 1700000000 + 3600 \<and>
   (\<exists>token decoded.
      generateToken (jwt_sign demo_mac demo_timespan 1700000000) demo_env_hour ''u1'' ''a@b.co''
        = Inr token \<and>
      verifyToken (jwt_verify demo_mac 1700003599) demo_env_hour token = Inr (Some decoded) \<and>
      decoded = Object [(''userId'', Str ''u1''), (''email'', Str ''a@b.co''),
                        (''iat'', Number (of_int 1700000000)),
                        (''exp'', Number (of_int (1700000000 + 3600)))] \<and>
      get_field decoded ''userId'' = Str ''u1'' \<and> get_field decoded ''email'' = Str ''a@b.co'')"
proof -
  have h1: "JWT_SECRET demo_env_hour = Some ''s3cret''" by (simp add: demo_env_hour_def)
  have h2: "''s3cret'' \<noteq> []" by simp
  have h3: "JWT_EXPIRES_IN demo_env_hour = Some ''1h''" by (simp add: demo_env_hour_def)
  have h3': "(JWT_EXPIRES_IN demo_env_hour = Some ''1h'' \<and> ''1h'' \<noteq> [])
      \<or> ((JWT_EXPIRES_IN demo_env_hour = None \<or> JWT_EXPIRES_IN demo_env_hour = Some [])
          \<and> ''1h'' = ''7d'')"
    using h3 by simp
  have h4: "demo_timespan ''1h'' = Some 3600" by (simp add: demo_timespan_def)
  have h5: "(1700003599::int) < 1700000000 + 3600" by simp
  from C2_verify_after_issue [where env = demo_env_hour and secret = "''s3cret''"
      and setting = "''1h''" and timespan = demo_timespan
      and t = 1700000000 and t' = 1700003599 and d = 3600 and mac = demo_mac
      and u = "''u1''" and e = "''a@b.co''", OF h1 h2 h3' h4 h5] h1 h3 h4
  show ?thesis by simp
qed

text \<open>
  The result of verifying a token issued for user id \<^verbatim>\<open>u1\<close> and email \<^verbatim>\<open>a@b.co\<close> is not
  the object of just these two properties.
\<close>

theorem C2_payload_has_iat_and_exp_counterexample:
  "generateToken (jwt_sign demo_mac demo_timespan 1700000000) demo_env ''u1'' ''a@b.co''
     = Inr (Jws [(''userId'', Str ''u1''), (''email'', Str ''a@b.co''),
                 (''iat'', Number 1700000000), (''exp'', Number 1700604800)]
                ''s3cretuserIdemailiatexp'') \<and>
   verifyToken (jwt_verify demo_mac 1700000500) demo_env
     (Jws [(''userId'', Str ''u1''), (''email'', Str ''a@b.co''),
           (''iat'', Number 1700000000), (''exp'', Number 1700604800)]
          ''s3cretuserIdemailiatexp'')
     = Inr (Some (Object [(''userId'', Str ''u1''), (''email'', Str ''a@b.co''),
                          (''iat'', Number 1700000000), (''exp'', Number 1700604800)])) \<and>
   verifyToken (jwt_verify demo_mac 1700000500) demo_env
     (Jws [(''userId'', Str ''u1''), (''email'', Str ''a@b.co''),
           (''iat'', Number 1700000000), (''exp'', Number 1700604800)]
          ''s3cretuserIdemailiatexp'')
     \<noteq> Inr (Some (Object [(''userId'', Str ''u1''), (''email'', Str ''a@b.co'')]))"
  by (simp add: generateToken_def jwt_sign_def verifyToken_def jwt_verify_def Let_def
      getJWTSecret_def expiresIn_def demo_env_def demo_mac_def demo_timespan_def)

text \<open>
  Claim C3 (amended). On a protected operation a request without a token and a request
  with a token that verification rejects are both answered with status 401 and
  \<open>success = false\<close>, and neither reaches the handler. The error texts differ: a missing
  token is answered with "No token provided. Please login first.", a rejected one with
  "Invalid or expired token. Please login again.".
\<close>

theorem C3_missing_and_invalid_token_responses:
  "(absent (authenticate_token req) \<longrightarrow>
      fst (authenticate verify env req)
        = Responded \<lparr>status = 401, json = \<lparr>success = False, data = None,
            error = Some ''No token provided. Please login first.'', message = None\<rparr>\<rparr>) \<and>
   (authenticate_token req = Some token \<and> token \<noteq> [] \<and> verifyToken verify env token = Inr None \<longrightarrow>
      fst (authenticate verify env req)
        = Responded \<lparr>status = 401, json = \<lparr>success = False, data = None,
            error = Some ''Invalid or expired token. Please login again.'', message = None\<rparr>\<rparr>)"
  by (auto simp: authenticate_def absent_def failure_def split: option.splits)

theorem C3_missing_and_invalid_token_responses_witness:
  "absent (authenticate_token demo_request) \<and>
   fst (authenticate verify_malformed demo_env demo_request)
     = Responded \<lparr>status = 401, json = \<lparr>success = False, data = None,
         error = Some ''No token provided. Please login first.'', message = None\<rparr>\<rparr> \<and>
   authenticate_token (demo_request\<lparr>authorization := Some ''Bearer garbage''\<rparr>) = Some ''garbage'' \<and>
   ''garbage'' \<noteq> [] \<and>
   verifyToken verify_malformed demo_env ''garbage'' = Inr None \<and>
   fst (authenticate verify_malformed demo_env (demo_request\<lparr>authorization := Some ''Bearer garbage''\<rparr>))
     = Responded \<lparr>status = 401, json = \<lparr>success = False, data = None,
         error = Some ''Invalid or expired token. Please login again.'', message = None\<rparr>\<rparr>"
proof -
  have a: "absent (authenticate_token demo_request)"
    by (simp add: absent_def authenticate_token_def cookie_authToken_def demo_request_def)
  have b: "authenticate_token (demo_request\<lparr>authorization := Some ''Bearer garbage''\<rparr>) = Some ''garbage''"
    by (simp add: authenticate_token_def demo_request_def)
  have c: "verifyToken verify_malformed demo_env ''garbage'' = Inr None"
    by (simp add: verifyToken_def verify_malformed_def getJWTSecret_def demo_env_def absent_def)
  from C3_missing_and_invalid_token_responses
    [where req = demo_request and verify = verify_malformed and env = demo_env] a
  have r1: "fst (authenticate verify_malformed demo_env demo_request)
     = Responded \<lparr>status = 401, json = \<lparr>success = False, data = None,
         error = Some ''No token provided. Please login first.'', message = None\<rparr>\<rparr>"
    by blast
  from C3_missing_and_invalid_token_responses
    [where req = "demo_request\<lparr>authorization := Some ''Bearer garbage''\<rparr>"
      and token = "''garbage''" and verify = verify_malformed and env = demo_env]
    b c
  have r2: "fst (authenticate verify_malformed demo_env (demo_request\<lparr>authorization := Some ''Bearer garbage''\<rparr>))
     = Responded \<lparr>status = 401, json = \<lparr>success = False, data = None,
         error = Some ''Invalid or expired token. Please login again.'', message = None\<rparr>\<rparr>"
    by simp
  from a b c r1 r2 show ?thesis by simp
qed

theorem C3_responses_differ_counterexample:
  "fst (authenticate verify_malformed demo_env demo_request)
     \<noteq> fst (authenticate verify_malformed demo_env
           (demo_request\<lparr>authorization := Some ''Bearer garbage''\<rparr>))"
  by (simp add: authenticate_def authenticate_token_def cookie_authToken_def demo_request_def
      verifyToken_def verify_malformed_def getJWTSecret_def demo_env_def absent_def failure_def)

text \<open>
  Claim C4. \<^verbatim>\<open>verifyToken\<close> never throws, whatever the package's verification does. For
  a token that is not a JSON Web Token, a token whose signature is not the keyed hash of its
  claims under the secret (in particular a properly signed token with one character of the
  signature changed), and a token whose expiry is at or before the clock, it returns null.
\<close>

theorem C4_invalid_token_gives_null:
  assumes bad: "token = Malformed
      \<or> (\<exists>claims sg. token = Jws claims sg \<and> sg \<noteq> mac secret claims)
      \<or> (\<exists>claims i c. token = Jws claims ((mac secret claims)[i := c])
            \<and> i < length (mac secret claims) \<and> c \<noteq> mac secret claims ! i)
      \<or> (\<exists>claims sg x. token = Jws claims sg \<and> map_of claims ''exp'' = Some (Number x)
            \<and> x \<le> of_int now)"
    and secret: "getJWTSecret env = Inr secret \<or> (\<exists>err. getJWTSecret env = Inl err)"
  shows "(\<exists>r. verifyToken verify env anyToken = Inr r) \<and>
    verifyToken (jwt_verify mac now) env token = Inr None"
proof -
  have total: "\<exists>r. verifyToken verify env anyToken = Inr r"
    by (rule verifyToken_never_throws)
  have null: "verifyToken (jwt_verify mac now) env token = Inr None"
  proof (cases "getJWTSecret env")
    case (Inl err)
    then show ?thesis by (rule verifyToken_no_secret)
  next
    case (Inr s)
    with secret have s: "getJWTSecret env = Inr secret" by auto
    have "\<exists>err. jwt_verify mac now token secret = Inl err"
      using bad
    proof (elim disjE exE conjE)
      assume "token = Malformed"
      then show ?thesis by (simp add: jwt_verify_def)
    next
      fix claims sg assume "token = Jws claims sg" "sg \<noteq> mac secret claims"
      then show ?thesis by (simp add: jwt_verify_def)
    next
      fix claims i c
      assume t: "token = Jws claims ((mac secret claims)[i := c])"
        and i: "i < length (mac secret claims)" and c: "c \<noteq> mac secret claims ! i"
      have "(mac secret claims)[i := c] ! i = c" using i by simp
      with c have "(mac secret claims)[i := c] \<noteq> mac secret claims" by metis
      with t show ?thesis by (simp add: jwt_verify_def)
    next
      fix claims sg x
      assume "token = Jws claims sg" "map_of claims ''exp'' = Some (Number x)" "x \<le> of_int now"
      then show ?thesis by (simp add: jwt_verify_def)
    qed
    then obtain err where "jwt_verify mac now token secret = Inl err" ..
    with s show ?thesis by (rule verifyToken_rejected)
  qed
  from total null show ?thesis ..
qed

theorem C4_invalid_token_gives_null_witness:
  "(\<exists>i c. i < length (demo_mac ''s3cret'' [(''userId'', Str ''u1'')])
      \<and> c \<noteq> demo_mac ''s3cret'' [(''userId'', Str ''u1'')] ! i) \<and>
   getJWTSecret demo_env = Inr ''s3cret'' \<and>
   (\<exists>r. verifyToken verify_malformed demo_env ''garbage'' = Inr r) \<and>
   verifyToken (jwt_verify demo_mac 1700000500) demo_env
     (Jws [(''userId'', Str ''u1'')] ((demo_mac ''s3cret'' [(''userId'', Str ''u1'')])[0 := CHR ''X'']))
     = Inr None"
proof -
  have m: "demo_mac ''s3cret'' [(''userId'', Str ''u1'')] = ''s3cretuserId''"
    by (simp add: demo_mac_def)
  have h0: "(0::nat) < length (demo_mac ''s3cret'' [(''userId'', Str ''u1'')])
      \<and> CHR ''X'' \<noteq> demo_mac ''s3cret'' [(''userId'', Str ''u1'')] ! 0"
    by (simp add: m)
  have h1: "getJWTSecret demo_env = Inr ''s3cret''"
    by (simp add: getJWTSecret_def demo_env_def absent_def)
  have bad: "Jws [(''userId'', Str ''u1'')] ((demo_mac ''s3cret'' [(''userId'', Str ''u1'')])[0 := CHR ''X''])
      = Malformed
    \<or> (\<exists>claims sg. Jws [(''userId'', Str ''u1'')] ((demo_mac ''s3cret'' [(''userId'', Str ''u1'')])[0 := CHR ''X''])
          = Jws claims sg \<and> sg \<noteq> demo_mac ''s3cret'' claims)
    \<or> (\<exists>claims i c. Jws [(''userId'', Str ''u1'')] ((demo_mac ''s3cret'' [(''userId'', Str ''u1'')])[0 := CHR ''X''])
          = Jws claims ((demo_mac ''s3cret'' claims)[i := c])
            \<and> i < length (demo_mac ''s3cret'' claims) \<and> c \<noteq> demo_mac ''s3cret'' claims ! i)
    \<or> (\<exists>claims sg x. Jws [(''userId'', Str ''u1'')] ((demo_mac ''s3cret'' [(''userId'', Str ''u1'')])[0 := CHR ''X''])
          = Jws claims sg \<and> map_of claims ''exp'' = Some (Number x) \<and> x \<le> of_int 1700000500)"
    using h0 by blast
  have sec: "getJWTSecret demo_env = Inr ''s3cret'' \<or> (\<exists>err. getJWTSecret demo_env = Inl err)"
    using h1 by simp
  from C4_invalid_token_gives_null [where mac = demo_mac and secret = "''s3cret''"
      and now = 1700000500 and env = demo_env and verify = verify_malformed
      and anyToken = "''garbage''", OF bad sec] h0 h1
  show ?thesis by blast
qed








text \<open>
  Claim C7. The Authorization header of the claim is the header \<^verbatim>\<open>Authorization: Bearer <token>\<close>
  of the spec. When it is present, that is, the header value starts with "Bearer " and
  carries a token, it wins: that token alone is used by the middleware and by the handler
  of GET /auth/me, whatever the cookie holds. When it is absent (no Authorization header,
  or one that is not a Bearer header), the token of the authToken cookie is used.
\<close>

theorem C7_bearer_header_before_cookie:
  "(authorization req = Some h \<and> take 7 h = ''Bearer '' \<and> drop 7 h \<noteq> [] \<longrightarrow>
      authenticate_token (req\<lparr>cookies := c\<rparr>) = Some (drop 7 h) \<and>
      me_token (req\<lparr>cookies := c\<rparr>) = Some (drop 7 h)) \<and>
   (authorization req = None \<or> (authorization req = Some h \<and> take 7 h \<noteq> ''Bearer '') \<longrightarrow>
      authenticate_token req = cookie_authToken req \<and>
      me_token req = (if absent (cookie_authToken req) then None else cookie_authToken req))"
  by (auto simp: authenticate_token_def me_token_def cookie_authToken_def absent_def Let_def
      split: option.splits)

theorem C7_bearer_header_before_cookie_witness:
  "authorization (demo_request\<lparr>authorization := Some ''Bearer abc''\<rparr>) = Some ''Bearer abc'' \<and>
   take 7 ''Bearer abc'' = ''Bearer '' \<and> drop 7 ''Bearer abc'' \<noteq> [] \<and>
   authenticate_token (demo_request\<lparr>authorization := Some ''Bearer abc'',
       cookies := Some [''authToken'' \<mapsto> ''tok'']\<rparr>) = Some ''abc'' \<and>
   me_token (demo_request\<lparr>authorization := Some ''Bearer abc'',
       cookies := Some [''authToken'' \<mapsto> ''tok'']\<rparr>) = Some ''abc'' \<and>
   authorization (demo_request\<lparr>cookies := Some [''authToken'' \<mapsto> ''tok'']\<rparr>) = None \<and>
   authenticate_token (demo_request\<lparr>cookies := Some [''authToken'' \<mapsto> ''tok'']\<rparr>) = Some ''tok'' \<and>
   me_token (demo_request\<lparr>cookies := Some [''authToken'' \<mapsto> ''tok'']\<rparr>) = Some ''tok''"
proof -
  have a: "authorization (demo_request\<lparr>authorization := Some ''Bearer abc''\<rparr>) = Some ''Bearer abc''
      \<and> take 7 ''Bearer abc'' = ''Bearer '' \<and> drop 7 ''Bearer abc'' \<noteq> []"
    by simp
  have b: "authorization (demo_request\<lparr>cookies := Some [''authToken'' \<mapsto> ''tok'']\<rparr>) = None"
    by (simp add: demo_request_def)
  have ck: "cookie_authToken (demo_request\<lparr>cookies := Some [''authToken'' \<mapsto> ''tok'']\<rparr>) = Some ''tok''"
    by (simp add: cookie_authToken_def)
  from C7_bearer_header_before_cookie
    [where req = "demo_request\<lparr>authorization := Some ''Bearer abc''\<rparr>"
      and h = "''Bearer abc''" and c = "Some [''authToken'' \<mapsto> ''tok'']"] a
  have r1: "authenticate_token (demo_request\<lparr>authorization := Some ''Bearer abc'',
       cookies := Some [''authToken'' \<mapsto> ''tok'']\<rparr>) = Some ''abc'' \<and>
     me_token (demo_request\<lparr>authorization := Some ''Bearer abc'',
       cookies := Some [''authToken'' \<mapsto> ''tok'']\<rparr>) = Some ''abc''"
    by simp
  from C7_bearer_header_before_cookie
    [where req = "demo_request\<lparr>cookies := Some [''authToken'' \<mapsto> ''tok'']\<rparr>"
      and h = "''x''"] b
  have r2: "authenticate_token (demo_request\<lparr>cookies := Some [''authToken'' \<mapsto> ''tok'']\<rparr>) = Some ''tok'' \<and>
     me_token (demo_request\<lparr>cookies := Some [''authToken'' \<mapsto> ''tok'']\<rparr>) = Some ''tok''"
    by (simp add: ck absent_def)
  from a b r1 r2 show ?thesis by simp
qed

text \<open>
  Claim C8. A registration whose email is in the user table when the handler looks is
  answered with Conflict (409) and inserts nothing. Two registrations for the same new
  email that are handled at the same time cannot both succeed, because the engine's UNIQUE
  constraint on \<^verbatim>\<open>email\<close> refuses the second INSERT; but here the code departs from the
  claim: when both SELECTs ran before the first INSERT, the request whose INSERT is refused
  is answered with 500 and the engine's message, not with Conflict, because the handler's
  catch block gives 409 to a \<^verbatim>\<open>ConflictError\<close> only.
\<close>

theorem C8_race_loser_answered_500:
  assumes present: "u_email row \<in> set (map u_email store)"
    and tokA: "generateToken sign env (u_id a) (u_email a) = Inr tokA"
    and same: "u_email a = u_email b"
    and newE: "u_email a \<notin> set (map u_email users)"
    and newA: "u_id a \<notin> set (map u_id users)"
  shows "register sign env row store =
      (store, Finished \<lparr>status = 409, json = \<lparr>success = False, data = None,
          error = Some ''User with this email already exists'', message = None\<rparr>\<rparr>) \<and>
    run_two sign env a b [True, False, True, False] (users, AtSelect, AtSelect) =
      (users @ [a],
       Finished \<lparr>status = 201, json = \<lparr>success = True,
         data = Some (Object [(''token'', Str tokA),
           (''user'', Object [(''id'', Str (u_id a)), (''name'', Str (u_name a)),
                             (''email'', Str (u_email a))])]),
         error = None, message = Some ''User registered successfully''\<rparr>\<rparr>,
       Finished \<lparr>status = 500, json = \<lparr>success = False, data = None,
         error = Some ''Duplicate entry'', message = None\<rparr>\<rparr>)"
proof
  show "register sign env row store =
      (store, Finished \<lparr>status = 409, json = \<lparr>success = False, data = None,
          error = Some ''User with this email already exists'', message = None\<rparr>\<rparr>)"
    using present by (rule register_duplicate)
next
  have newE': "u_email b \<notin> set (map u_email users)" using newE same by simp
  have s0: "select_users_by_email users (u_email a) = []"
    "select_users_by_email users (u_email b) = []"
    using newE newE' by (simp_all add: select_users_none)
  have iA: "insert_user users a = Inr (users @ [a])"
    using newE newA by (rule insert_user_fresh)
  have dB: "insert_user (users @ [a]) b = Inl (DuplicateEntry ''Duplicate entry'')"
    using same [symmetric] by (rule insert_user_taken)
  show "run_two sign env a b [True, False, True, False] (users, AtSelect, AtSelect) =
      (users @ [a],
       Finished \<lparr>status = 201, json = \<lparr>success = True,
         data = Some (Object [(''token'', Str tokA),
           (''user'', Object [(''id'', Str (u_id a)), (''name'', Str (u_name a)),
                             (''email'', Str (u_email a))])]),
         error = None, message = Some ''User registered successfully''\<rparr>\<rparr>,
       Finished \<lparr>status = 500, json = \<lparr>success = False, data = None,
         error = Some ''Duplicate entry'', message = None\<rparr>\<rparr>)"
    by (simp add: s0 iA dB tokA reg_step_def failure_def)
qed

theorem C8_race_loser_answered_500_witness:
  "u_email ann_again \<in> set (map u_email [ann]) \<and>
   generateToken demo_sign demo_env (u_id ann) (u_email ann) = Inr ''s3cretuserIdemail'' \<and>
   u_email ann = u_email ann_again \<and>
   u_email ann \<notin> set (map u_email []) \<and> u_id ann \<notin> set (map u_id []) \<and>
   register demo_sign demo_env ann_again [ann] =
      ([ann], Finished \<lparr>status = 409, json = \<lparr>success = False, data = None,
          error = Some ''User with this email already exists'', message = None\<rparr>\<rparr>) \<and>
   run_two demo_sign demo_env ann ann_again [True, False, True, False] ([], AtSelect, AtSelect) =
      ([ann],
       Finished \<lparr>status = 201, json = \<lparr>success = True,
         data = Some (Object [(''token'', Str ''s3cretuserIdemail''),
           (''user'', Object [(''id'', Str ''id1''), (''name'', Str ''Ann''),
                             (''email'', Str ''ann@example.com'')])]),
         error = None, message = Some ''User registered successfully''\<rparr>\<rparr>,
       Finished \<lparr>status = 500, json = \<lparr>success = False, data = None,
         error = Some ''Duplicate entry'', message = None\<rparr>\<rparr>)"
proof -
  have present: "u_email ann_again \<in> set (map u_email [ann])"
    by (simp add: ann_def ann_again_def)
  have tokA: "generateToken demo_sign demo_env (u_id ann) (u_email ann) = Inr ''s3cretuserIdemail''"
    by (simp add: generateToken_def demo_sign_def getJWTSecret_def demo_env_def)
  have same: "u_email ann = u_email ann_again" by (simp add: ann_def ann_again_def)
  have newE: "u_email ann \<notin> set (map u_email [])" by simp
  have newA: "u_id ann \<notin> set (map u_id [])" by simp
  have f: "u_id ann = ''id1''" "u_name ann = ''Ann''" "u_email ann = ''ann@example.com''"
    by (simp_all add: ann_def)
  have e: "[] @ [ann] = [ann]" by simp
  from C8_race_loser_answered_500 [OF present tokA same newE newA, unfolded f e]
    present tokA same newE newA
  show ?thesis by blast
qed

text \<open>
  Claim C9. For an authenticated user \<^verbatim>\<open>DELETE /salary\<close> answers with success whether or not
  a reminder existed. The message is meant to tell the two cases apart, and here the code
  departs from the claim: with no reminder stored for the user the engine reports
  \<^verbatim>\<open>affectedRows = 0\<close>, \<^verbatim>\<open>executeQuery\<close> turns that into 1, and the handler answers
  "Salary reminder deleted successfully".
\<close>

theorem C9_delete_absent_reminder_message:
  "delete_salary (demo_request\<lparr>userId := Some ''u1''\<rparr>) [] =
     (\<lparr>status = 200,
       json = \<lparr>success = True, data = None, error = None,
         message = Some ''Salary reminder deleted successfully''\<rparr>\<rparr>,
      [],
      [(Info, ''Salary reminder deleted'', [(''userId'', ''u1'')])])"
  by (simp add: delete_salary_def delete_reminder_def executeQuery_def demo_request_def)



end
